theory Spec2Isabelle
  imports Main
begin

section \<open>Text: characters, case mapping, trimming\<close>

text \<open>
  A Python \<open>str\<close> is modelled as a \<open>string\<close>, each \<open>char\<close> standing for the code point of
  the same number (0 to 255). The character classes below are read off the code point.
  \<open>is_alnum\<close> is the regular-expression class \<^verbatim>\<open>[a-zA-Z0-9]\<close>, \<open>is_tag_char\<close> the class
  \<^verbatim>\<open>[a-zA-Z0-9_+-]\<close>, and \<open>is_space\<close> the characters that \<^verbatim>\<open>str.strip()\<close> removes
  (\<^verbatim>\<open>str.isspace\<close>: U+0009 to U+000D, U+001C to U+0020, U+0085 and U+00A0).
\<close>

definition code :: "char \<Rightarrow> nat" where
  "code c = of_char c"

definition is_digit :: "char \<Rightarrow> bool" where
  "is_digit c = (48 \<le> code c \<and> code c \<le> 57)"

definition is_ascii_lower :: "char \<Rightarrow> bool" where
  "is_ascii_lower c = (97 \<le> code c \<and> code c \<le> 122)"

definition is_ascii_upper :: "char \<Rightarrow> bool" where
  "is_ascii_upper c = (65 \<le> code c \<and> code c \<le> 90)"

definition is_alnum :: "char \<Rightarrow> bool" where
  "is_alnum c = (is_ascii_lower c \<or> is_ascii_upper c \<or> is_digit c)"

definition is_tag_char :: "char \<Rightarrow> bool" where
  "is_tag_char c = (is_alnum c \<or> c = CHR ''_'' \<or> c = CHR ''+'' \<or> c = CHR ''-'')"

definition is_space :: "char \<Rightarrow> bool" where
  "is_space c = ((9 \<le> code c \<and> code c \<le> 13) \<or> (28 \<le> code c \<and> code c \<le> 32)
                 \<or> code c = 133 \<or> code c = 160)"

text \<open>
  \<^verbatim>\<open>str.lower()\<close> on these code points: A to Z, and the capital letters U+00C0 to U+00DE
  other than the multiplication sign U+00D7, move up by 32; everything else stays. (Beyond
  code point 255 lower-casing can also produce an ASCII letter, as U+212A gives k; what
  is said below about the tokens of a request is therefore said of the lower-cased text,
  which is the text the code tokenises.)
\<close>

definition lower_char :: "char \<Rightarrow> char" where
  "lower_char c =
     (if is_ascii_upper c \<or> (192 \<le> code c \<and> code c \<le> 222 \<and> code c \<noteq> 215)
      then char_of (code c + 32) else c)"

definition lower :: "string \<Rightarrow> string" where
  "lower s = map lower_char s"

text \<open>
  \<^verbatim>\<open>str.upper()\<close> leaves the 8-bit range on three inputs (the micro sign becomes U+039C,
  the sharp s becomes the two letters SS, y with diaeresis becomes U+0178), so its result is
  a list of code points.
\<close>

definition upper_char :: "char \<Rightarrow> nat list" where
  "upper_char c =
     (if is_ascii_lower c then [code c - 32]
      else if code c = 181 then [924]
      else if code c = 223 then [83, 83]
      else if 224 \<le> code c \<and> code c \<le> 254 \<and> code c \<noteq> 247 then [code c - 32]
      else if code c = 255 then [376]
      else [code c])"

definition upper :: "string \<Rightarrow> nat list" where
  "upper s = concat (map upper_char s)"

definition strip :: "string \<Rightarrow> string" where
  "strip s = rev (dropWhile is_space (rev (dropWhile is_space s)))"

fun join :: "string \<Rightarrow> string list \<Rightarrow> string" where
  "join sep [] = []"
| "join sep [x] = x"
| "join sep (x # y # ys) = x @ sep @ join sep (y # ys)"

section \<open>Artifact and path derivation\<close>

text \<open>
  \<^verbatim>\<open>re.findall(r"[a-zA-Z0-9]+", s)\<close>: the maximal runs of class characters, left to right.
  \<open>scan cur s\<close> carries the run read so far.
\<close>

fun scan :: "string \<Rightarrow> string \<Rightarrow> string list" where
  "scan cur [] = (if cur = [] then [] else [cur])"
| "scan cur (c # cs) =
     (if is_alnum c then scan (cur @ [c]) cs
      else (if cur = [] then [] else [cur]) @ scan [] cs)"

definition findall_alnum :: "string \<Rightarrow> string list" where
  "findall_alnum s = scan [] s"

definition slugify :: "string \<Rightarrow> string" where
  "slugify text =
     (let tokens = findall_alnum (lower text)
      in if tokens = [] then ''generated-test'' else join ''-'' (take 8 tokens))"

text \<open>
  \<^verbatim>\<open>datetime.now().strftime("%Y%m%d-%H%M%S-%f")\<close>. The clock reading is an input; every
  field is printed in decimal, zero-padded to its width (\<^verbatim>\<open>%Y\<close> to four digits, which is
  what every platform prints from the year 1000 on).
\<close>

record datetime =
  year :: nat
  month :: nat
  day :: nat
  hour :: nat
  minute :: nat
  second :: nat
  microsecond :: nat


definition digit_char :: "nat \<Rightarrow> char" where
  "digit_char d = char_of (48 + d)"

fun show_nat :: "nat \<Rightarrow> string" where
  "show_nat n = (if n < 10 then [digit_char n] else show_nat (n div 10) @ [digit_char (n mod 10)])"

declare show_nat.simps [simp del]

definition zpad :: "nat \<Rightarrow> nat \<Rightarrow> string" where
  "zpad w n = replicate (w - length (show_nat n)) (CHR ''0'') @ show_nat n"

definition strftime :: "datetime \<Rightarrow> string" where
  "strftime t =
     zpad 4 (year t) @ zpad 2 (month t) @ zpad 2 (day t) @ ''-''
     @ zpad 2 (hour t) @ zpad 2 (minute t) @ zpad 2 (second t) @ ''-''
     @ zpad 6 (microsecond t)"

definition build_request_id :: "datetime \<Rightarrow> string \<Rightarrow> string" where
  "build_request_id now spec = slugify spec @ ''-'' @ strftime now"

type_synonym path = string

text \<open>
  A \<^verbatim>\<open>Path\<close> is modelled by its posix string, taken as already normalised.
  \<open>request_id or slugify(spec)\<close> takes the second operand when the first is \<^verbatim>\<open>None\<close> or empty.
\<close>

definition default_output_path :: "string \<Rightarrow> string \<Rightarrow> string option \<Rightarrow> path" where
  "default_output_path spec test_language request_id =
     (let ext = (if test_language = ''ts'' then ''spec.ts'' else ''spec.py'');
          name = (case request_id of None \<Rightarrow> slugify spec
                  | Some r \<Rightarrow> if r = [] then slugify spec else r)
      in ''tests/'' @ name @ ''.'' @ ext)"

definition plan_output_path :: "string \<Rightarrow> path" where
  "plan_output_path request_id = ''specs/'' @ request_id @ ''-plan.md''"

definition path_parent :: "path \<Rightarrow> path" where
  "path_parent p =
     (let d = rev (drop 1 (dropWhile (\<lambda>c. c \<noteq> CHR ''/'') (rev p)))
      in if d \<noteq> [] then d else if take 1 p = ''/'' then ''/'' else ''.'')"

section \<open>Fenced-block extraction\<close>

text \<open>
  \<^verbatim>\<open>re.search(r"```(?:[a-zA-Z0-9_+-]+)?\n(.*?)```", text, re.S)\<close>.
  \<open>find_close\<close> is the lazy group followed by the closing fence: the text before the first
  closing fence, if there is one. \<open>match_here\<close> is the pattern anchored at the start of its
  argument: the opening fence, the longest run of tag characters (a shorter run is followed
  by a tag character, never by the newline the pattern needs), a newline, the group.
  \<open>fenced_search\<close> tries every start position from the left and returns group 1 of the first
  match.
\<close>

fun find_close :: "string \<Rightarrow> string option" where
  "find_close [] = None"
| "find_close (c # cs) =
     (if take 3 (c # cs) = ''```'' then Some [] else map_option ((#) c) (find_close cs))"

definition match_here :: "string \<Rightarrow> string option" where
  "match_here s =
     (if take 3 s = ''```''
      then (case dropWhile is_tag_char (drop 3 s) of
              [] \<Rightarrow> None
            | c # body \<Rightarrow> if c = CHR ''\<newline>'' then find_close body else None)
      else None)"

fun fenced_search :: "string \<Rightarrow> string option" where
  "fenced_search [] = None"
| "fenced_search (c # cs) =
     (case match_here (c # cs) of Some g \<Rightarrow> Some g | None \<Rightarrow> fenced_search cs)"

definition extract_fenced_block :: "string \<Rightarrow> string" where
  "extract_fenced_block text =
     (case fenced_search text of Some g \<Rightarrow> strip g | None \<Rightarrow> strip text)"

section \<open>Tool-provider configuration\<close>

text \<open>
  The values \<^verbatim>\<open>json.loads\<close> returns, with a dictionary as an association list that
  \<open>map_of\<close> reads; a float is kept as the text \<^verbatim>\<open>str()\<close> prints for it. An \<open>exn\<close> is an instance of the class
  \<^verbatim>\<open>Exception\<close> with its message: the four classes the workflow's own code raises, and
  \<open>OtherError\<close> for any other raised by a collaborator (tool provider, model,
  configuration file), with its \<^verbatim>\<open>str()\<close>.
\<close>

datatype json =
    JNull
  | JBool bool
  | JInt int
  | JFloat string
  | JStr string
  | JArr "json list"
  | JObj "(string \<times> json) list"

datatype exn =
    ValueError string
  | KeyError string
  | TypeError string
  | AttributeError string
  | OtherError string

text \<open>\<^verbatim>\<open>str(exc)\<close>: the message; for a \<^verbatim>\<open>KeyError\<close> the quoted key.\<close>

fun str_exn :: "exn \<Rightarrow> string" where
  "str_exn (ValueError m) = m"
| "str_exn (KeyError k) = [CHR 0x27] @ k @ [CHR 0x27]"
| "str_exn (TypeError m) = m"
| "str_exn (AttributeError m) = m"
| "str_exn (OtherError m) = m"

fun truthy :: "json \<Rightarrow> bool" where
  "truthy JNull = False"
| "truthy (JBool b) = b"
| "truthy (JInt i) = (i \<noteq> 0)"
| "truthy (JFloat f) = (f \<noteq> ''0.0'' \<and> f \<noteq> ''-0.0'')"
| "truthy (JStr s) = (s \<noteq> [])"
| "truthy (JArr xs) = (xs \<noteq> [])"
| "truthy (JObj d) = (d \<noteq> [])"

fun type_name :: "json \<Rightarrow> string" where
  "type_name JNull = ''NoneType''"
| "type_name (JBool b) = ''bool''"
| "type_name (JInt i) = ''int''"
| "type_name (JFloat f) = ''float''"
| "type_name (JStr s) = ''str''"
| "type_name (JArr xs) = ''list''"
| "type_name (JObj d) = ''dict''"

definition no_attribute :: "json \<Rightarrow> string \<Rightarrow> exn" where
  "no_attribute v a =
     AttributeError ([CHR 0x27] @ type_name v @ [CHR 0x27] @ '' object has no attribute ''
                     @ [CHR 0x27] @ a @ [CHR 0x27])"

definition unhashable :: "json \<Rightarrow> exn" where
  "unhashable v = TypeError (''unhashable type: '' @ [CHR 0x27] @ type_name v @ [CHR 0x27])"

definition dict_get :: "(string \<times> json) list \<Rightarrow> string \<Rightarrow> json \<Rightarrow> json" where
  "dict_get d k dflt = (case map_of d k of None \<Rightarrow> dflt | Some v \<Rightarrow> v)"

definition show_int :: "int \<Rightarrow> string" where
  "show_int i = (if i < 0 then ''-'' @ show_nat (nat (- i)) else show_nat (nat i))"

definition default_server :: json where
  "default_server =
     JObj [(''type'', JStr ''stdio''), (''command'', JStr ''npx''),
           (''args'', JArr [JStr ''playwright'', JStr ''run-test-mcp-server''])]"

text \<open>
  The configuration file is an input: \<open>None\<close> when the path does not exist,
  \<open>Some (Inl e)\<close> when reading or parsing it raises, \<open>Some (Inr data)\<close> the parsed document.
\<close>

definition load_mcp_server_config ::
  "(exn + json) option \<Rightarrow> string \<Rightarrow> exn + json" where
  "load_mcp_server_config config_file server_name =
     (case config_file of
        None \<Rightarrow> Inr default_server
      | Some (Inl e) \<Rightarrow> Inl e
      | Some (Inr (JObj data)) \<Rightarrow>
          (case dict_get data ''servers'' (JObj []) of
             JObj servers \<Rightarrow>
               (case map_of servers server_name of
                  None \<Rightarrow> Inr default_server
                | Some server \<Rightarrow> if truthy server then Inr server else Inr default_server)
           | other \<Rightarrow> Inl (no_attribute other ''get''))
      | Some (Inr other) \<Rightarrow> Inl (no_attribute other ''get''))"

text \<open>
  \<open>server_type in {"streamable_http", "http"}\<close> hashes \<open>server_type\<close> first, which raises
  for a list or a dictionary; the f-string of the last line prints a string as it is,
  \<^verbatim>\<open>None\<close>, \<^verbatim>\<open>True\<close>, \<^verbatim>\<open>False\<close>, an integer in decimal and a float as \<^verbatim>\<open>str()\<close> prints
  it (\<open>format_scalar\<close> is only ever applied to a hashable value).
\<close>

fun format_scalar :: "json \<Rightarrow> string" where
  "format_scalar JNull = ''None''"
| "format_scalar (JBool b) = (if b then ''True'' else ''False'')"
| "format_scalar (JInt i) = show_int i"
| "format_scalar (JFloat f) = f"
| "format_scalar (JStr s) = s"
| "format_scalar (JArr xs) = []"
| "format_scalar (JObj d) = []"

fun hashable :: "json \<Rightarrow> bool" where
  "hashable (JArr xs) = False"
| "hashable (JObj d) = False"
| "hashable v = True"

fun normalize_mcp_config :: "json \<Rightarrow> exn + (string \<times> json) list" where
  "normalize_mcp_config (JObj server_config) =
     (let server_type = dict_get server_config ''type'' (JStr ''stdio'')
      in if server_type = JStr ''stdio''
         then Inr [(''command'', dict_get server_config ''command'' (JStr ''npx'')),
                   (''args'', dict_get server_config ''args'' (JArr [])),
                   (''transport'', JStr ''stdio'')]
         else if \<not> hashable server_type then Inl (unhashable server_type)
         else if server_type = JStr ''streamable_http'' \<or> server_type = JStr ''http''
         then (case map_of server_config ''url'' of
                 None \<Rightarrow> Inl (KeyError ''url'')
               | Some url \<Rightarrow> Inr [(''url'', url), (''transport'', JStr ''streamable_http'')])
         else Inl (ValueError (''Unsupported MCP server type: '' @ format_scalar server_type)))"
| "normalize_mcp_config other = Inl (no_attribute other ''get'')"

section \<open>Prompts\<close>

definition PLANNER_PROMPT :: string where
  "PLANNER_PROMPT =
     ''You are an expert web test planner using MCP browser tools.\<newline>''
     @ ''Follow this flow:\<newline>''
     @ ''1) If planner_setup_page is available, call it once before other actions.\<newline>''
     @ ''2) If a start URL is provided, navigate to it before executing steps.\<newline>''
     @ ''3) Use browser_* tools to explore the UI and identify flows.\<newline>''
     @ ''4) Save the plan using planner_save_plan if available.\<newline>''
     @ ''Tool calls must match the tool schema exactly. If a field expects a list/array, pass a JSON array.\<newline>''
     @ ''Return a complete test plan in markdown in one fenced code block.''"

definition GENERATOR_PROMPT :: string where
  "GENERATOR_PROMPT =
     ''You are a Playwright test generator using MCP browser tools.\<newline>''
     @ ''Follow this flow:\<newline>''
     @ ''1) If generator_setup_page is available, call it once before other actions.\<newline>''
     @ ''2) If a start URL is provided, navigate to it before executing steps.\<newline>''
     @ ''3) Use browser_* tools to execute the request. Prefer stable locators and realistic flows.\<newline>''
     @ ''4) Call generator_read_log if available, then use the log to craft the test.\<newline>''
     @ ''Tool calls must match the tool schema exactly. If a field expects a list/array, pass a JSON array.\<newline>''
     @ ''5) Return a single Playwright test file that matches the requested language and uses best practices.\<newline>''
     @ ''Avoid deprecated APIs like networkidle waits.\<newline>''
     @ ''Return only the test code in one fenced code block.''"

definition HEALER_PROMPT :: string where
  "HEALER_PROMPT =
     ''You are the Playwright test healer using MCP test tools.\<newline>''
     @ ''Follow this flow:\<newline>''
     @ ''1) Run tests with test_run to identify failures. Limit runs to the provided test file when possible.\<newline>''
     @ ''2) For each failure, use test_debug and browser_* tools to diagnose.\<newline>''
     @ ''3) Update the provided test code to fix issues and improve reliability.\<newline>''
     @ ''4) If no changes are needed, respond with NO_CHANGES.\<newline>''
     @ ''Tool calls must match the tool schema exactly. If a field expects a list/array, pass a JSON array.\<newline>''
     @ ''Avoid deprecated APIs like networkidle waits.\<newline>''
     @ ''Return only the updated test code in one fenced code block or NO_CHANGES.''"

text \<open>\<open>start_url or "None provided"\<close>: the default also replaces an empty string.\<close>

definition url_text :: "string option \<Rightarrow> string" where
  "url_text start_url =
     (case start_url of None \<Rightarrow> ''None provided''
      | Some u \<Rightarrow> if u = [] then ''None provided'' else u)"

definition build_plan_prompt :: "string \<Rightarrow> string option \<Rightarrow> path \<Rightarrow> string" where
  "build_plan_prompt spec start_url plan_path =
     ''Create a comprehensive test plan for the request below.\<newline>''
     @ ''Start URL: '' @ url_text start_url @ ''\<newline>''
     @ ''Plan path: '' @ plan_path @ ''\<newline>\<newline>''
     @ ''Request:\<newline>'' @ spec"

definition build_generation_prompt ::
  "string \<Rightarrow> string option \<Rightarrow> path \<Rightarrow> string \<Rightarrow> path \<Rightarrow> string \<Rightarrow> string" where
  "build_generation_prompt spec start_url plan_path plan_text output_path test_language =
     ''Create a Playwright test from the request and plan below.\<newline>''
     @ ''Test language: '' @ test_language @ ''\<newline>''
     @ ''Start URL: '' @ url_text start_url @ ''\<newline>''
     @ ''Plan path: '' @ plan_path @ ''\<newline>''
     @ ''Output path: '' @ output_path @ ''\<newline>\<newline>''
     @ ''Request:\<newline>'' @ spec @ ''\<newline>\<newline>''
     @ ''Plan:\<newline>'' @ plan_text"

definition build_heal_prompt ::
  "string \<Rightarrow> path \<Rightarrow> string \<Rightarrow> path \<Rightarrow> string \<Rightarrow> string" where
  "build_heal_prompt spec plan_path plan_text test_path test_code =
     ''Heal the Playwright test using the plan and current code below.\<newline>''
     @ ''Plan path: '' @ plan_path @ ''\<newline>''
     @ ''Test path: '' @ test_path @ ''\<newline>\<newline>''
     @ ''Request:\<newline>'' @ spec @ ''\<newline>\<newline>''
     @ ''Plan:\<newline>'' @ plan_text @ ''\<newline>\<newline>''
     @ ''Current test code:\<newline>'' @ test_code"

section \<open>The workflow\<close>

text \<open>
  Everything \<^verbatim>\<open>run_workflow\<close> reads from outside is a field of \<open>world\<close>: the clock, the
  configuration file (the same at both reads), and the collaborators, each returning a
  value or the exception it raises. The two tool-provider sessions are numbered 1 and 2;
  \<^verbatim>\<open>client.get_tools()\<close>, \<^verbatim>\<open>init_chat_model\<close>, \<^verbatim>\<open>model.bind_tools\<close> and the closing of the
  client may answer differently in each. \<open>ainvoke\<close> is a run of a compiled graph on a
  system and a human message, giving the content of the last message; tools are known by
  name, the chat model by a handle.

  What the workflow does to the outside is the \<open>state\<close>: the files (path to content) and
  the trace of its effects in the order they happen. Directory creation and file writes
  are taken to succeed, and the files change only by the workflow's own writes.
\<close>

type_synonym client_config = "(string \<times> json) list"
type_synonym graph = "string \<times> string list"

record world =
  clock :: datetime
  config_file :: "path \<Rightarrow> (exn + json) option"
  get_tools :: "nat \<Rightarrow> client_config \<Rightarrow> exn + string list"
  init_chat_model :: "nat \<Rightarrow> string \<Rightarrow> exn + string"
  bind_tools :: "nat \<Rightarrow> string \<Rightarrow> string list \<Rightarrow> exn option"
  ainvoke :: "graph \<Rightarrow> string \<Rightarrow> string \<Rightarrow> exn + string"
  aclose :: "nat \<Rightarrow> exn option"

datatype event =
    Mkdir path
  | WriteText path string
  | ClientCreated nat string client_config
  | GetTools nat
  | InitChatModel nat string
  | Invoke nat string string
  | CloseClient nat

record state =
  files :: "path \<Rightarrow> string option"
  trace :: "event list"

definition log_event :: "event \<Rightarrow> state \<Rightarrow> state" where
  "log_event e s = s\<lparr>trace := trace s @ [e]\<rparr>"

definition mkdir :: "path \<Rightarrow> state \<Rightarrow> state" where
  "mkdir p s = log_event (Mkdir p) s"

definition write_text :: "path \<Rightarrow> string \<Rightarrow> state \<Rightarrow> state" where
  "write_text p content s = log_event (WriteText p content) (s\<lparr>files := (files s)(p \<mapsto> content)\<rparr>)"

definition is_client_event :: "event \<Rightarrow> bool" where
  "is_client_event e = (case e of Mkdir p \<Rightarrow> False | WriteText p c \<Rightarrow> False | _ \<Rightarrow> True)"

text \<open>
  \<^verbatim>\<open>server_config = load_mcp_server_config(mcp_config, mcp_server)\<close> and
  \<^verbatim>\<open>client = MultiServerMCPClient({mcp_server: normalize_mcp_config(server_config)})\<close>.
\<close>

definition open_client ::
  "world \<Rightarrow> nat \<Rightarrow> path \<Rightarrow> string \<Rightarrow> state \<Rightarrow> state \<times> (exn + client_config)" where
  "open_client w n mcp_config mcp_server s =
     (case load_mcp_server_config (config_file w mcp_config) mcp_server of
        Inl e \<Rightarrow> (s, Inl e)
      | Inr server_config \<Rightarrow>
          (case normalize_mcp_config server_config of
             Inl e \<Rightarrow> (s, Inl e)
           | Inr cfg \<Rightarrow> (log_event (ClientCreated n mcp_server cfg) s, Inr cfg)))"

text \<open>
  \<^verbatim>\<open>build_graph\<close> (lines 159 to 172) binds the tools to the model and then builds the tool
  node with \<^verbatim>\<open>ToolNode(tools, handle_tool_error=True)\<close>. The constructor of
  \<^verbatim>\<open>langgraph.prebuilt.ToolNode\<close> has the keyword parameters \<open>name\<close>, \<open>tags\<close>,
  \<open>handle_tool_errors\<close> and \<open>messages_key\<close> (later versions add others, none of them
  called \<open>handle_tool_error\<close>); called with a keyword that is not a parameter it raises,
  as every Python call does, the \<^verbatim>\<open>TypeError\<close> \<open>got an unexpected keyword argument\<close> (the
  interpreter may add a suggestion after the quoted keyword). \<open>ToolNode tools keywords\<close> is
  the call with the given keyword names.
\<close>

definition tool_node_parameters :: "string list" where
  "tool_node_parameters = [''name'', ''tags'', ''handle_tool_errors'', ''messages_key'']"

definition unexpected_keyword :: "string \<Rightarrow> exn" where
  "unexpected_keyword k =
     TypeError (''ToolNode.__init__() got an unexpected keyword argument ''
                @ [CHR 0x27] @ k @ [CHR 0x27])"

definition ToolNode :: "string list \<Rightarrow> string list \<Rightarrow> exn + string list" where
  "ToolNode tools keywords =
     (case filter (\<lambda>k. k \<notin> set tool_node_parameters) keywords of
        [] \<Rightarrow> Inr tools
      | k # ks \<Rightarrow> Inl (unexpected_keyword k))"

definition build_graph :: "world \<Rightarrow> nat \<Rightarrow> string \<Rightarrow> string list \<Rightarrow> exn + graph" where
  "build_graph w n model tools =
     (case bind_tools w n model tools of
        Some e \<Rightarrow> Inl e
      | None \<Rightarrow>
          (case ToolNode tools [''handle_tool_error''] of
             Inl e \<Rightarrow> Inl e
           | Inr node \<Rightarrow> Inr (model, node)))"

text \<open>
  \<^verbatim>\<open>tools = await client.get_tools()\<close>, \<^verbatim>\<open>model = init_chat_model(model_name, temperature=0)\<close>,
  \<^verbatim>\<open>graph = build_graph(model, tools)\<close>.
\<close>

definition start_graph ::
  "world \<Rightarrow> nat \<Rightarrow> client_config \<Rightarrow> string \<Rightarrow> state \<Rightarrow> state \<times> (exn + graph)" where
  "start_graph w n cfg model_name s =
     (let s1 = log_event (GetTools n) s
      in case get_tools w n cfg of
           Inl e \<Rightarrow> (s1, Inl e)
         | Inr tools \<Rightarrow>
             (let s2 = log_event (InitChatModel n model_name) s1
              in case init_chat_model w n model_name of
                   Inl e \<Rightarrow> (s2, Inl e)
                 | Inr model \<Rightarrow> (s2, build_graph w n model tools)))"

definition invoke ::
  "world \<Rightarrow> nat \<Rightarrow> graph \<Rightarrow> string \<Rightarrow> string \<Rightarrow> state \<Rightarrow> state \<times> (exn + string)" where
  "invoke w n g system human s = (log_event (Invoke n system human) s, ainvoke w g system human)"

text \<open>
  The \<^verbatim>\<open>finally: await close_client(client)\<close> of a session: it runs whatever the body did,
  and an exception of its own replaces the body's outcome.
\<close>

definition close_client :: "world \<Rightarrow> nat \<Rightarrow> state \<times> (exn + 'a) \<Rightarrow> state \<times> (exn + 'a)" where
  "close_client w n body =
     (let s = log_event (CloseClient n) (fst body)
      in case aclose w n of Some e \<Rightarrow> (s, Inl e) | None \<Rightarrow> (s, snd body))"

text \<open>Lines 213 to 215: the plan text taken from the planner's last message.\<close>

definition fallback_plan :: "string \<Rightarrow> string" where
  "fallback_plan spec = ''# Plan\<newline>\<newline>Request:\<newline>'' @ spec @ ''\<newline>''"

definition plan_text_of :: "string \<Rightarrow> string \<Rightarrow> string" where
  "plan_text_of spec plan_content =
     (let plan_text = extract_fenced_block plan_content
      in if plan_text = [] then fallback_plan spec else plan_text)"

text \<open>
  Lines 210 to 230, the first \<^verbatim>\<open>try\<close> once it has a graph: plan, persist the plan,
  generate.
\<close>

definition plan_generate_with ::
  "world \<Rightarrow> graph \<Rightarrow> string \<Rightarrow> string option \<Rightarrow> path \<Rightarrow> path \<Rightarrow> string
     \<Rightarrow> state \<Rightarrow> state \<times> (exn + string \<times> string)" where
  "plan_generate_with w g spec start_url plan_path output_path test_language s =
     (case invoke w 1 g PLANNER_PROMPT (build_plan_prompt spec start_url plan_path) s of
        (s2, Inl e) \<Rightarrow> (s2, Inl e)
      | (s2, Inr plan_content) \<Rightarrow>
          (let plan_text = plan_text_of spec plan_content;
               s3 = write_text plan_path (plan_text @ ''\<newline>'') s2
           in case invoke w 1 g GENERATOR_PROMPT
                     (build_generation_prompt spec start_url plan_path plan_text
                        output_path test_language) s3 of
                (s4, Inl e) \<Rightarrow> (s4, Inl e)
              | (s4, Inr generation) \<Rightarrow> (s4, Inr (plan_text, generation))))"

text \<open>The body of the first \<^verbatim>\<open>try\<close> (lines 206 to 230).\<close>

definition plan_and_generate ::
  "world \<Rightarrow> client_config \<Rightarrow> string \<Rightarrow> string option \<Rightarrow> path \<Rightarrow> path \<Rightarrow> string \<Rightarrow> string
     \<Rightarrow> state \<Rightarrow> state \<times> (exn + string \<times> string)" where
  "plan_and_generate w cfg spec start_url plan_path output_path test_language model_name s =
     (case start_graph w 1 cfg model_name s of
        (s1, Inl e) \<Rightarrow> (s1, Inl e)
      | (s1, Inr g) \<Rightarrow>
          plan_generate_with w g spec start_url plan_path output_path test_language s1)"

text \<open>
  Lines 234 to 238: the test code taken from the generator's last message; without code
  the workflow raises, with code it writes the test file.
\<close>

definition persist_test_code :: "path \<Rightarrow> string \<Rightarrow> state \<Rightarrow> state \<times> (exn + string)" where
  "persist_test_code output_path generation s =
     (let test_code = extract_fenced_block generation
      in if test_code = []
         then (s, Inl (ValueError ''No test code returned by generator.''))
         else (write_text output_path (test_code @ ''\<newline>'') s, Inr test_code))"

text \<open>The body of the second \<^verbatim>\<open>try\<close> (lines 244 to 250): one run of the graph on the heal prompt.\<close>

definition heal ::
  "world \<Rightarrow> client_config \<Rightarrow> string \<Rightarrow> path \<Rightarrow> string \<Rightarrow> path \<Rightarrow> string \<Rightarrow> string
     \<Rightarrow> state \<Rightarrow> state \<times> (exn + string)" where
  "heal w cfg spec plan_path plan_text output_path test_code model_name s =
     (case start_graph w 2 cfg model_name s of
        (s1, Inl e) \<Rightarrow> (s1, Inl e)
      | (s1, Inr g) \<Rightarrow>
          invoke w 2 g HEALER_PROMPT
            (build_heal_prompt spec plan_path plan_text output_path test_code) s1)"

text \<open>
  Lines 254 to 261: what the healer's last message does to the test code; the result is
  the final code and the \<open>healed\<close> flag.
\<close>

definition NO_CHANGES :: "nat list" where
  "NO_CHANGES = map code ''NO_CHANGES''"

definition apply_heal :: "path \<Rightarrow> string \<Rightarrow> string \<Rightarrow> state \<Rightarrow> state \<times> string \<times> bool" where
  "apply_heal output_path test_code heal_content s =
     (let heal_text = strip heal_content
      in if upper heal_text \<noteq> NO_CHANGES
         then
           (let healed_code = extract_fenced_block heal_text
            in if healed_code \<noteq> []
               then (write_text output_path (healed_code @ ''\<newline>'') s,
                     healed_code, healed_code \<noteq> test_code)
               else (s, test_code, False))
         else (s, test_code, False))"

text \<open>The names \<^verbatim>\<open>run_workflow\<close> computes first (lines 194 to 197).\<close>

definition workflow_plan_path :: "world \<Rightarrow> string \<Rightarrow> path" where
  "workflow_plan_path w spec = plan_output_path (build_request_id (clock w) (strip spec))"

definition workflow_output_path :: "world \<Rightarrow> string \<Rightarrow> path option \<Rightarrow> string \<Rightarrow> path" where
  "workflow_output_path w spec output_path test_language =
     (case output_path of
        Some p \<Rightarrow> p
      | None \<Rightarrow> default_output_path (strip spec) test_language
                  (Some (build_request_id (clock w) (strip spec))))"

text \<open>
  Lines 194 to 232: names, directories, the first session with its \<^verbatim>\<open>finally\<close>. The
  result is the plan text and the content of the generator's last message.
\<close>

definition first_session ::
  "world \<Rightarrow> string \<Rightarrow> string option \<Rightarrow> path option \<Rightarrow> string \<Rightarrow> string \<Rightarrow> path \<Rightarrow> string
     \<Rightarrow> state \<Rightarrow> state \<times> (exn + string \<times> string)" where
  "first_session w spec start_url output_path test_language model_name mcp_config mcp_server s =
     (let plan_path = workflow_plan_path w spec;
          out = workflow_output_path w spec output_path test_language;
          s1 = mkdir (path_parent out) (mkdir (path_parent plan_path) s)
      in case open_client w 1 mcp_config mcp_server s1 of
           (s2, Inl e) \<Rightarrow> (s2, Inl e)
         | (s2, Inr cfg) \<Rightarrow>
             close_client w 1
               (plan_and_generate w cfg (strip spec) start_url plan_path out test_language
                  model_name s2))"

text \<open>Lines 241 to 252: the second session with its \<^verbatim>\<open>finally\<close>.\<close>

definition second_session ::
  "world \<Rightarrow> string \<Rightarrow> path option \<Rightarrow> string \<Rightarrow> string \<Rightarrow> path \<Rightarrow> string \<Rightarrow> string \<Rightarrow> string
     \<Rightarrow> state \<Rightarrow> state \<times> (exn + string)" where
  "second_session w spec output_path test_language model_name mcp_config mcp_server
       plan_text test_code s =
     (case open_client w 2 mcp_config mcp_server s of
        (s1, Inl e) \<Rightarrow> (s1, Inl e)
      | (s1, Inr cfg) \<Rightarrow>
          close_client w 2
            (heal w cfg (strip spec) (workflow_plan_path w spec) plan_text
               (workflow_output_path w spec output_path test_language) test_code model_name s1))"

type_synonym workflow_result = "path \<times> string \<times> path \<times> string \<times> bool"

definition run_workflow ::
  "world \<Rightarrow> string \<Rightarrow> string option \<Rightarrow> path option \<Rightarrow> string \<Rightarrow> string \<Rightarrow> path \<Rightarrow> string
     \<Rightarrow> state \<Rightarrow> state \<times> (exn + workflow_result)" where
  "run_workflow w spec start_url output_path test_language model_name mcp_config mcp_server s =
     (let plan_path = workflow_plan_path w spec;
          out = workflow_output_path w spec output_path test_language
      in case first_session w spec start_url output_path test_language model_name
                mcp_config mcp_server s of
           (s1, Inl e) \<Rightarrow> (s1, Inl e)
         | (s1, Inr (plan_text, generation)) \<Rightarrow>
             (case persist_test_code out generation s1 of
                (s2, Inl e) \<Rightarrow> (s2, Inl e)
              | (s2, Inr test_code) \<Rightarrow>
                  (case second_session w spec output_path test_language model_name
                          mcp_config mcp_server plan_text test_code s2 of
                     (s3, Inl e) \<Rightarrow> (s3, Inl e)
                   | (s3, Inr heal_content) \<Rightarrow>
                       (case apply_heal out test_code heal_content s3 of
                          (s4, final_code, healed) \<Rightarrow>
                            (s4, Inr (plan_path, plan_text, out, final_code, healed))))))"

text \<open>\<open>x or None\<close> and \<open>Path(x) if x else None\<close>: an empty string counts as absent.\<close>

definition or_none :: "string option \<Rightarrow> string option" where
  "or_none x = (case x of None \<Rightarrow> None | Some v \<Rightarrow> if v = [] then None else Some v)"

definition run_workflow_sync ::
  "world \<Rightarrow> string \<Rightarrow> string option \<Rightarrow> string option \<Rightarrow> string \<Rightarrow> string \<Rightarrow> string \<Rightarrow> string
     \<Rightarrow> state \<Rightarrow> state \<times> (exn + workflow_result)" where
  "run_workflow_sync w spec start_url output_path test_language model_name mcp_config mcp_server s =
     run_workflow w spec start_url (or_none output_path) test_language model_name
       mcp_config mcp_server s"

section \<open>The HTTP boundary\<close>

record generate_request =
  req_spec :: string
  req_start_url :: "string option"
  req_output_path :: "string option"
  req_test_language :: string
  req_model_name :: string
  req_mcp_config :: string
  req_mcp_server :: string

record generate_response =
  rsp_plan_path :: string
  rsp_plan_text :: string
  rsp_test_path :: string
  rsp_test_code :: string
  rsp_healed :: bool

record http_exception =
  status_code :: nat
  detail :: string

definition generate_tests ::
  "world \<Rightarrow> generate_request \<Rightarrow> state \<Rightarrow> state \<times> (http_exception + generate_response)" where
  "generate_tests w payload s =
     (case run_workflow_sync w (req_spec payload) (or_none (req_start_url payload))
             (or_none (req_output_path payload)) (req_test_language payload)
             (req_model_name payload) (req_mcp_config payload) (req_mcp_server payload) s of
        (s1, Inl exc) \<Rightarrow> (s1, Inl \<lparr>status_code = 500, detail = str_exn exc\<rparr>)
      | (s1, Inr (plan_path, plan_text, test_path, test_code, healed)) \<Rightarrow>
          (s1, Inr \<lparr>rsp_plan_path = plan_path, rsp_plan_text = plan_text,
                    rsp_test_path = test_path, rsp_test_code = test_code,
                    rsp_healed = healed\<rparr>))"

section \<open>Vocabulary of the properties\<close>




definition is_write :: "event \<Rightarrow> bool" where
  "is_write e = (case e of WriteText p c \<Rightarrow> True | _ \<Rightarrow> False)"

text \<open>
  A world for concrete runs: no configuration file (so the built-in stdio server), a tool
  provider and a model that answer, and graphs that reply to each of the three system
  prompts with a fixed text.
\<close>

definition demo_clock :: datetime where
  "demo_clock = \<lparr>year = 2026, month = 1, day = 2, hour = 3, minute = 4, second = 5,
                  microsecond = 678\<rparr>"

definition demo_world :: "string \<Rightarrow> string \<Rightarrow> string \<Rightarrow> world" where
  "demo_world plan_reply generator_reply healer_reply =
     \<lparr>clock = demo_clock,
      config_file = (\<lambda>p. None),
      get_tools = (\<lambda>n cfg. Inr [''browser_click'']),
      init_chat_model = (\<lambda>n name. Inr name),
      bind_tools = (\<lambda>n model tools. None),
      ainvoke = (\<lambda>g system human.
                   if system = PLANNER_PROMPT then Inr plan_reply
                   else if system = GENERATOR_PROMPT then Inr generator_reply
                   else Inr healer_reply),
      aclose = (\<lambda>n. None)\<rparr>"

definition empty_state :: state where
  "empty_state = \<lparr>files = (\<lambda>p. None), trace = []\<rparr>"

text \<open>The same world with a configuration file whose parsed content is \<open>doc\<close>.\<close>

definition with_config :: "world \<Rightarrow> json \<Rightarrow> world" where
  "with_config w doc = w\<lparr>config_file := (\<lambda>p. Some (Inr doc))\<rparr>"

definition grpc_config :: json where
  "grpc_config =
     JObj [(''servers'', JObj [(''playwright-test'', JObj [(''type'', JStr ''grpc'')])])]"

definition demo_request :: generate_request where
  "demo_request =
     \<lparr>req_spec = '' Log in'', req_start_url = None, req_output_path = Some [],
      req_test_language = ''ts'', req_model_name = ''gpt'', req_mcp_config = ''mcp.json'',
      req_mcp_server = ''playwright-test''\<rparr>"

section \<open>Trimming and fenced-block search\<close>

lemma rev_dropWhile_rev_decomp:
  "rev (dropWhile P (rev t)) @ rev (takeWhile P (rev t)) = t"
proof -
  have "rev (dropWhile P (rev t)) @ rev (takeWhile P (rev t))
        = rev (takeWhile P (rev t) @ dropWhile P (rev t))"
    by (simp only: rev_append)
  also have "\<dots> = t" by simp
  finally show ?thesis .
qed

lemma strip_decomp: "\<exists>a b. s = a @ strip s @ b"
proof -
  have "takeWhile is_space s @ strip s @ rev (takeWhile is_space (rev (dropWhile is_space s))) = s"
    unfolding strip_def by (simp only: rev_dropWhile_rev_decomp takeWhile_dropWhile_id)
  then show ?thesis by metis
qed

lemma strip_last: "strip s \<noteq> [] \<Longrightarrow> \<not> is_space (last (strip s))"
proof -
  assume a: "strip s \<noteq> []"
  let ?u = "dropWhile is_space (rev (dropWhile is_space s))"
  have u: "?u \<noteq> []" using a by (simp add: strip_def)
  then have "\<not> is_space (hd ?u)" by (rule hd_dropWhile)
  moreover have "last (strip s) = hd ?u" using u by (simp add: strip_def last_rev)
  ultimately show ?thesis by simp
qed

lemma strip_hd: "strip s \<noteq> [] \<Longrightarrow> \<not> is_space (hd (strip s))"
proof -
  assume a: "strip s \<noteq> []"
  let ?t = "dropWhile is_space s"
  let ?u = "dropWhile is_space (rev ?t)"
  have u: "?u \<noteq> []" using a by (simp add: strip_def)
  have t: "?t \<noteq> []"
  proof
    assume "?t = []"
    have "strip s = rev (dropWhile is_space (rev ?t))" by (simp add: strip_def)
    also have "\<dots> = []" by (simp only: \<open>?t = []\<close> rev.simps dropWhile.simps)
    finally show False using a by simp
  qed
  then have h: "\<not> is_space (hd ?t)" by (rule hd_dropWhile)
  have "rev ?u @ rev (takeWhile is_space (rev ?t)) = ?t" by (rule rev_dropWhile_rev_decomp)
  moreover have "rev ?u \<noteq> []" using u by simp
  ultimately have "hd ?t = hd (rev ?u)" by (metis hd_append2)
  then show ?thesis using h by (simp add: strip_def)
qed

lemma strip_fixed:
  assumes "s = [] \<or> (\<not> is_space (hd s) \<and> \<not> is_space (last s))"
  shows "strip s = s"
proof (cases "s = []")
  case True then show ?thesis by (simp add: strip_def)
next
  case False
  with assms have h: "\<not> is_space (hd s)" and l: "\<not> is_space (last s)" by auto
  have 1: "dropWhile is_space s = s" using h by (simp add: dropWhile_eq_self_iff)
  have "hd (rev s) = last s" using False by (simp add: hd_rev)
  then have 2: "dropWhile is_space (rev s) = rev s" using l by (simp add: dropWhile_eq_self_iff)
  show ?thesis by (simp add: strip_def 1 2)
qed

lemma strip_idem: "strip (strip s) = strip s"
  by (rule strip_fixed) (use strip_hd strip_last in blast)

lemma find_close_SomeD: "find_close s = Some g \<Longrightarrow> \<exists>post. s = g @ ''```'' @ post"
proof (induction s arbitrary: g)
  case Nil then show ?case by simp
next
  case (Cons c cs)
  show ?case
  proof (cases "take 3 (c # cs) = ''```''")
    case True
    then have "g = []" using Cons.prems by simp
    moreover have "c # cs = take 3 (c # cs) @ drop 3 (c # cs)" by (simp only: append_take_drop_id)
    ultimately show ?thesis using True by (metis append_Nil)
  next
    case False
    then obtain g' where g': "find_close cs = Some g'" "g = c # g'" using Cons.prems by auto
    from Cons.IH[OF g'(1)] obtain post where "cs = g' @ ''```'' @ post" by blast
    then show ?thesis using g'(2) by auto
  qed
qed

lemma find_close_complete: "find_close (body @ ''```'' @ post) \<noteq> None"
  by (induction body) auto

lemma match_here_SomeD:
  assumes a: "match_here s = Some g"
  shows "\<exists>tag post. s = ''```'' @ tag @ ''\<newline>'' @ g @ ''```'' @ post \<and> (\<forall>c\<in>set tag. is_tag_char c)"
proof -
  define r where "r = drop 3 s"
  define tag where "tag = takeWhile is_tag_char r"
  have t: "take 3 s = ''```''" using a by (auto simp: match_here_def split: if_splits)
  from a t obtain body where b: "dropWhile is_tag_char r = CHR ''\<newline>'' # body" "find_close body = Some g"
    unfolding r_def by (auto simp: match_here_def split: list.splits if_splits)
  from find_close_SomeD[OF b(2)] obtain post where p: "body = g @ ''```'' @ post" by blast
  have "r = tag @ dropWhile is_tag_char r" unfolding tag_def by simp
  then have r: "r = tag @ ''\<newline>'' @ g @ ''```'' @ post" using b(1) p by simp
  have "take 3 s @ r = s" unfolding r_def by (rule append_take_drop_id)
  then have "''```'' @ r = s" unfolding t .
  then have "s = ''```'' @ r" by (rule sym)
  also have "r = tag @ ''\<newline>'' @ g @ ''```'' @ post" by (rule r)
  finally have "s = ''```'' @ tag @ ''\<newline>'' @ g @ ''```'' @ post" .
  moreover have "\<forall>c\<in>set tag. is_tag_char c" unfolding tag_def by (auto dest: set_takeWhileD)
  ultimately show ?thesis by blast
qed

lemma newline_not_tag: "\<not> is_tag_char (CHR ''\<newline>'')"
  by (simp add: is_tag_char_def is_alnum_def is_digit_def is_ascii_lower_def is_ascii_upper_def code_def)

lemma match_here_complete:
  assumes "\<forall>c\<in>set tag. is_tag_char c"
  shows "match_here (''```'' @ tag @ ''\<newline>'' @ body @ ''```'' @ post) \<noteq> None"
proof -
  have "dropWhile is_tag_char (tag @ ''\<newline>'' @ body @ ''```'' @ post) = ''\<newline>'' @ body @ ''```'' @ post"
    using assms newline_not_tag by (simp add: dropWhile_append3)
  then show ?thesis using find_close_complete[of body post] by (simp add: match_here_def)
qed

lemma fenced_search_SomeD:
  "fenced_search s = Some g \<Longrightarrow>
   \<exists>pre tag post. s = pre @ ''```'' @ tag @ ''\<newline>'' @ g @ ''```'' @ post \<and> (\<forall>c\<in>set tag. is_tag_char c)"
proof (induction s)
  case Nil then show ?case by simp
next
  case (Cons c cs)
  show ?case
  proof (cases "match_here (c # cs)")
    case (Some g')
    then have "g' = g" using Cons.prems by simp
    with match_here_SomeD[OF Some] show ?thesis by (metis append_Nil)
  next
    case None
    then have "fenced_search cs = Some g" using Cons.prems by simp
    from Cons.IH[OF this] obtain pre tag post where
      "cs = pre @ ''```'' @ tag @ ''\<newline>'' @ g @ ''```'' @ post \<and> (\<forall>c\<in>set tag. is_tag_char c)" by blast
    then have "c # cs = (c # pre) @ ''```'' @ tag @ ''\<newline>'' @ g @ ''```'' @ post \<and> (\<forall>c\<in>set tag. is_tag_char c)" by simp
    then show ?thesis by blast
  qed
qed

lemma fenced_search_complete:
  assumes "\<forall>c\<in>set tag. is_tag_char c"
  shows "fenced_search (pre @ ''```'' @ tag @ ''\<newline>'' @ body @ ''```'' @ post) \<noteq> None"
proof (induction pre)
  case Nil
  have "match_here (''```'' @ tag @ ''\<newline>'' @ body @ ''```'' @ post) \<noteq> None"
    using assms by (rule match_here_complete)
  then show ?case by (auto split: option.splits)
next
  case (Cons c pre)
  then show ?case by (auto split: option.splits)
qed

lemma fenced_search_infix:
  assumes "fenced_search (a @ y @ b) = None"
  shows "fenced_search y = None"
proof (rule ccontr)
  assume "fenced_search y \<noteq> None"
  then obtain g where "fenced_search y = Some g" by blast
  from fenced_search_SomeD[OF this] obtain pre tag post where
    y: "y = pre @ ''```'' @ tag @ ''\<newline>'' @ g @ ''```'' @ post" and t: "\<forall>c\<in>set tag. is_tag_char c" by blast
  have "a @ y @ b = (a @ pre) @ ''```'' @ tag @ ''\<newline>'' @ g @ ''```'' @ (post @ b)" using y by simp
  then have "fenced_search (a @ y @ b) \<noteq> None" using fenced_search_complete[OF t] by metis
  then show False using assms by simp
qed

text \<open>Surrounding whitespace does not change what the pattern finds.\<close>

lemma space_not_fence: "is_space c \<Longrightarrow> c \<noteq> CHR 0x60"
  by (auto simp: is_space_def code_def)

lemma space_not_tag: "is_space c \<Longrightarrow> \<not> is_tag_char c"
  by (auto simp: is_space_def is_tag_char_def is_alnum_def is_digit_def is_ascii_lower_def
      is_ascii_upper_def code_def)

lemma take3_spaces:
  assumes "\<forall>c\<in>set b. is_space c"
  shows "(take 3 (s @ b) = ''```'') = (take 3 s = ''```'')"
proof (cases "3 \<le> length s")
  case True
  then show ?thesis by simp
next
  case False
  then have l: "length s < 3" by simp
  have 1: "take 3 s \<noteq> ''```''"
  proof
    assume "take 3 s = ''```''"
    then have "length (take 3 s) = 3" by simp
    with l show False by simp
  qed
  have 2: "take 3 (s @ b) \<noteq> ''```''"
  proof
    assume e: "take 3 (s @ b) = ''```''"
    then have "length (take 3 (s @ b)) = 3" by simp
    then have lb: "3 \<le> length (s @ b)" by simp
    have "(s @ b) ! length s = b ! 0" by (simp add: nth_append)
    moreover have "b \<noteq> []" using lb l by auto
    ultimately have "(s @ b) ! length s \<in> set b" by (cases b) auto
    then have sp: "is_space ((s @ b) ! length s)" using assms by blast
    have "take 3 (s @ b) ! length s = (s @ b) ! length s" using l by (rule nth_take)
    then have "(s @ b) ! length s = ''```'' ! length s" using e by simp
    moreover have "''```'' ! length s = CHR 0x60" using l
      by (cases "length s") (auto simp: less_Suc_eq nth_Cons')
    ultimately show False using sp space_not_fence by metis
  qed
  from 1 2 show ?thesis by simp
qed

lemma find_close_spaces:
  assumes "\<forall>c\<in>set b. is_space c"
  shows "find_close (x @ b) = find_close x"
proof (induction x)
  case Nil
  from assms show ?case
  proof (induction b)
    case Nil then show ?case by simp
  next
    case (Cons c b)
    then have "c \<noteq> CHR 0x60" using space_not_fence by simp
    then have "take 3 (c # b) \<noteq> ''```''" by (cases b) auto
    with Cons show ?case by simp
  qed
next
  case (Cons c x)
  have "(take 3 ((c # x) @ b) = ''```'') = (take 3 (c # x) = ''```'')"
    using assms by (rule take3_spaces)
  then have "(take 3 (c # x @ b) = ''```'') = (take 3 (c # x) = ''```'')" by simp
  with Cons show ?case by (simp only: find_close.simps append_Cons)
qed

lemma find_close_only_spaces: "\<forall>c\<in>set b. is_space c \<Longrightarrow> find_close b = None"
  using find_close_spaces[of b "[]"] by simp

lemma match_here_spaces:
  assumes "\<forall>c\<in>set b. is_space c"
  shows "match_here (s @ b) = match_here s"
proof (cases "take 3 s = ''```''")
  case False
  then show ?thesis using take3_spaces[OF assms, of s] by (simp add: match_here_def)
next
  case True
  then have "length (take 3 s) = 3" by simp
  then have l: "3 \<le> length s" by simp
  define u where "u = drop 3 s"
  have d: "drop 3 (s @ b) = u @ b" using l by (simp add: u_def)
  have t: "take 3 (s @ b) = ''```''" using True l by simp
  have "(case dropWhile is_tag_char (u @ b) of [] \<Rightarrow> None
          | c # body \<Rightarrow> if c = CHR ''\<newline>'' then find_close body else None)
        = (case dropWhile is_tag_char u of [] \<Rightarrow> None
          | c # body \<Rightarrow> if c = CHR ''\<newline>'' then find_close body else None)"
  proof (cases "\<forall>c\<in>set u. is_tag_char c")
    case True
    then have 1: "dropWhile is_tag_char u = []" by simp
    have 2: "dropWhile is_tag_char (u @ b) = b"
    proof -
      have "dropWhile is_tag_char (u @ b) = dropWhile is_tag_char b"
        using True by (simp add: dropWhile_append2)
      also have "\<dots> = b" using assms space_not_tag by (cases b) auto
      finally show ?thesis .
    qed
    have "(case b of [] \<Rightarrow> None
          | c # body \<Rightarrow> if c = CHR ''\<newline>'' then find_close body else None) = None"
      using assms find_close_only_spaces by (cases b) auto
    then show ?thesis by (simp only: 1 2 list.case)
  next
    case False
    then have 1: "dropWhile is_tag_char (u @ b) = dropWhile is_tag_char u @ b"
      by (auto simp: dropWhile_append1)
    from False obtain c body where 2: "dropWhile is_tag_char u = c # body"
      by (cases "dropWhile is_tag_char u") auto
    show ?thesis using find_close_spaces[OF assms, of body] by (simp add: 1 2)
  qed
  then show ?thesis by (simp only: match_here_def True t d u_def[symmetric] if_True)
qed

lemma match_here_only_spaces: "\<forall>c\<in>set b. is_space c \<Longrightarrow> match_here b = None"
proof -
  assume a: "\<forall>c\<in>set b. is_space c"
  have "take 3 b \<noteq> ''```''"
  proof (cases b)
    case Nil then show ?thesis by simp
  next
    case (Cons c cs)
    then have "c \<noteq> CHR 0x60" using a space_not_fence by simp
    then show ?thesis using Cons by simp
  qed
  then show ?thesis by (simp add: match_here_def)
qed

lemma fenced_search_only_spaces: "\<forall>c\<in>set b. is_space c \<Longrightarrow> fenced_search b = None"
  by (induction b) (simp_all add: match_here_only_spaces)

lemma fenced_search_leading_spaces:
  "\<forall>c\<in>set a. is_space c \<Longrightarrow> fenced_search (a @ s) = fenced_search s"
proof (induction a)
  case Nil then show ?case by simp
next
  case (Cons c a)
  then have "c \<noteq> CHR 0x60" using space_not_fence by simp
  then have "match_here (c # a @ s) = None" by (simp add: match_here_def)
  with Cons show ?case by simp
qed

lemma fenced_search_trailing_spaces:
  assumes "\<forall>c\<in>set b. is_space c"
  shows "fenced_search (s @ b) = fenced_search s"
proof (induction s)
  case Nil
  show ?case using fenced_search_only_spaces[OF assms] by simp
next
  case (Cons c s)
  have "match_here ((c # s) @ b) = match_here (c # s)" using assms by (rule match_here_spaces)
  then have "match_here (c # s @ b) = match_here (c # s)" by simp
  with Cons show ?case by (simp only: fenced_search.simps append_Cons)
qed

lemma strip_decomp_spaces:
  "\<exists>a b. s = a @ strip s @ b \<and> (\<forall>c\<in>set a. is_space c) \<and> (\<forall>c\<in>set b. is_space c)"
proof -
  let ?a = "takeWhile is_space s"
  let ?b = "rev (takeWhile is_space (rev (dropWhile is_space s)))"
  have "?a @ strip s @ ?b = s"
    unfolding strip_def by (simp only: rev_dropWhile_rev_decomp takeWhile_dropWhile_id)
  moreover have "\<forall>c\<in>set ?a. is_space c" by (auto dest: set_takeWhileD)
  moreover have "\<forall>c\<in>set ?b. is_space c" by (auto dest: set_takeWhileD)
  ultimately show ?thesis by metis
qed

lemma fenced_search_strip: "fenced_search (strip s) = fenced_search s"
proof -
  obtain a b where s: "s = a @ strip s @ b" and a: "\<forall>c\<in>set a. is_space c"
    and b: "\<forall>c\<in>set b. is_space c"
    using strip_decomp_spaces by blast
  have "fenced_search (a @ strip s @ b) = fenced_search (strip s @ b)"
    using a by (rule fenced_search_leading_spaces)
  also have "\<dots> = fenced_search (strip s)"
    using b by (rule fenced_search_trailing_spaces)
  finally show ?thesis using s by simp
qed

lemma extract_strip: "extract_fenced_block (strip s) = extract_fenced_block s"
  by (cases "fenced_search s") (simp_all add: extract_fenced_block_def fenced_search_strip strip_idem)

section \<open>Slugs and time stamps\<close>






















section \<open>Fenced-block extraction on text without a block\<close>

text \<open>
  Claim C6. When the pattern finds no fenced block in \<open>x\<close>, \<open>extract_fenced_block x\<close> is
  \<open>x\<close> trimmed of surrounding whitespace, and extracting again changes nothing:
  \<open>extract_fenced_block (extract_fenced_block x) = extract_fenced_block x\<close>.
\<close>

theorem extract_unfenced_idempotent:
  assumes "fenced_search x = None"
  shows "extract_fenced_block x = strip x
         \<and> extract_fenced_block (extract_fenced_block x) = extract_fenced_block x"
proof -
  have 1: "extract_fenced_block x = strip x"
    using assms by (simp add: extract_fenced_block_def)
  obtain a b where "x = a @ strip x @ b"
    using strip_decomp by blast
  then have "fenced_search (a @ strip x @ b) = None"
    using assms by simp
  then have "fenced_search (strip x) = None"
    by (rule fenced_search_infix)
  then have "extract_fenced_block (strip x) = strip (strip x)"
    by (simp add: extract_fenced_block_def)
  then show ?thesis
    using 1 by (simp add: strip_idem)
qed

theorem extract_unfenced_idempotent_witness:
  "fenced_search ''  no fence ```ts code``` '' = None
   \<and> extract_fenced_block ''  no fence ```ts code``` '' = ''no fence ```ts code```''
   \<and> extract_fenced_block (extract_fenced_block ''  no fence ```ts code``` '')
       = extract_fenced_block ''  no fence ```ts code``` ''"
proof -
  have h: "fenced_search ''  no fence ```ts code``` '' = None"
    by code_simp
  have s: "strip ''  no fence ```ts code``` '' = ''no fence ```ts code```''"
    by code_simp
  from extract_unfenced_idempotent[OF h]
  have c1: "extract_fenced_block ''  no fence ```ts code``` '' = strip ''  no fence ```ts code``` ''"
    and c2: "extract_fenced_block (extract_fenced_block ''  no fence ```ts code``` '')
             = extract_fenced_block ''  no fence ```ts code``` ''"
    by blast+
  from c1 s have "extract_fenced_block ''  no fence ```ts code``` '' = ''no fence ```ts code```''"
    by (rule trans)
  with h c2 show ?thesis
    by blast
qed

section \<open>The request identifier\<close>



section \<open>The workflow, step by step\<close>

lemma files_log_event: "files (log_event e s) = files s"
  by (simp add: log_event_def)

lemma trace_log_event: "trace (log_event e s) = trace s @ [e]"
  by (simp add: log_event_def)

lemma files_write_text: "files (write_text p c s) = (files s)(p \<mapsto> c)"
  by (simp add: write_text_def log_event_def)

lemma trace_write_text: "trace (write_text p c s) = trace s @ [WriteText p c]"
  by (simp add: write_text_def log_event_def)

text \<open>The tool node is never built: \<open>handle_tool_error\<close> is not a parameter of \<open>ToolNode\<close>.\<close>

lemma ToolNode_rejects_keyword:
  "ToolNode tools [''handle_tool_error''] = Inl (unexpected_keyword ''handle_tool_error'')"
  by (simp add: ToolNode_def tool_node_parameters_def)

lemma build_graph_raises:
  "build_graph w n model tools
   = Inl (case bind_tools w n model tools of
            Some e \<Rightarrow> e
          | None \<Rightarrow> unexpected_keyword ''handle_tool_error'')"
  by (simp add: build_graph_def ToolNode_rejects_keyword split: option.splits)

lemma start_graph_raises:
  "\<exists>s1 e. start_graph w n cfg model_name s = (s1, Inl e) \<and> files s1 = files s
          \<and> filter is_write (trace s1) = filter is_write (trace s)"
  by (auto simp: start_graph_def build_graph_raises Let_def log_event_def is_write_def
      split: sum.splits)

lemma first_session_raises:
  "\<exists>s1 e. first_session w spec start_url output_path lang model_name mcp_config mcp_server s
            = (s1, Inl e)
          \<and> files s1 = files s \<and> filter is_write (trace s1) = filter is_write (trace s)"
proof -
  let ?s0 = "mkdir (path_parent (workflow_output_path w spec output_path lang))
               (mkdir (path_parent (workflow_plan_path w spec)) s)"
  have s0: "files ?s0 = files s" "filter is_write (trace ?s0) = filter is_write (trace s)"
    by (simp_all add: mkdir_def log_event_def is_write_def)
  show ?thesis
  proof (cases "open_client w 1 mcp_config mcp_server ?s0")
    case (Pair s2 r)
    show ?thesis
    proof (cases r)
      case (Inl e)
      with Pair have "s2 = ?s0"
        by (auto simp: open_client_def split: sum.splits)
      with Pair Inl s0 show ?thesis
        by (simp add: first_session_def Let_def)
    next
      case (Inr cfg)
      with Pair have s2: "files s2 = files ?s0"
        "filter is_write (trace s2) = filter is_write (trace ?s0)"
        by (auto simp: open_client_def log_event_def is_write_def split: sum.splits)
      obtain s3 e where g: "start_graph w 1 cfg model_name s2 = (s3, Inl e)"
        "files s3 = files s2" "filter is_write (trace s3) = filter is_write (trace s2)"
        using start_graph_raises by blast
      have "first_session w spec start_url output_path lang model_name mcp_config mcp_server s
            = close_client w 1 (s3, Inl e)"
        using Pair Inr g(1) by (simp add: first_session_def plan_and_generate_def Let_def)
      then show ?thesis
        using g(2,3) s2 s0
        by (auto simp: close_client_def Let_def log_event_def is_write_def split: option.splits)
    qed
  qed
qed

text \<open>So no run returns a result, and no run writes a file.\<close>

lemma run_workflow_raises:
  "\<exists>s1 e. run_workflow w spec start_url output_path lang model_name mcp_config mcp_server s
            = (s1, Inl e)
          \<and> files s1 = files s \<and> filter is_write (trace s1) = filter is_write (trace s)"
proof -
  obtain s1 e where "first_session w spec start_url output_path lang model_name mcp_config
      mcp_server s = (s1, Inl e)"
    "files s1 = files s" "filter is_write (trace s1) = filter is_write (trace s)"
    using first_session_raises by blast
  then show ?thesis
    by (simp add: run_workflow_def Let_def)
qed

text \<open>The run when the configuration, the tool provider and the model answer.\<close>

lemma run_workflow_type_error:
  assumes "load_mcp_server_config (config_file w mcp_config) mcp_server = Inr server_config"
    and "normalize_mcp_config server_config = Inr cfg"
    and "get_tools w 1 cfg = Inr tools"
    and "init_chat_model w 1 model_name = Inr model"
    and "bind_tools w 1 model tools = None"
    and "aclose w 1 = None"
  shows "run_workflow w spec start_url output_path lang model_name mcp_config mcp_server s
         = (s\<lparr>trace := trace s @
               [Mkdir (path_parent (workflow_plan_path w spec)),
                Mkdir (path_parent (workflow_output_path w spec output_path lang)),
                ClientCreated 1 mcp_server cfg, GetTools 1, InitChatModel 1 model_name,
                CloseClient 1]\<rparr>,
            Inl (unexpected_keyword ''handle_tool_error''))"
  using assms
  by (simp add: run_workflow_def first_session_def open_client_def plan_and_generate_def
      start_graph_def build_graph_raises close_client_def mkdir_def log_event_def Let_def)

text \<open>
  What lines 254 to 261 do with the healer's last message: nothing when the trimmed
  message is the sentinel or holds no code, otherwise a rewrite of the test file, flagged
  as healed when the code differs.
\<close>

lemma apply_heal_unchanged:
  assumes "upper (strip r) = NO_CHANGES \<or> extract_fenced_block (strip r) = []"
  shows "apply_heal out test_code r s = (s, test_code, False)"
  using assms by (auto simp: apply_heal_def Let_def)

lemma apply_heal_rewrites:
  assumes "upper (strip r) \<noteq> NO_CHANGES" and "extract_fenced_block (strip r) \<noteq> []"
  shows "apply_heal out test_code r s
         = (write_text out (extract_fenced_block (strip r) @ ''\<newline>'') s,
            extract_fenced_block (strip r), extract_fenced_block (strip r) \<noteq> test_code)"
  using assms by (simp add: apply_heal_def Let_def)




section \<open>Runs in the demonstration world\<close>

lemma default_server_normalized:
  "normalize_mcp_config default_server
   = Inr [(''command'', JStr ''npx''),
          (''args'', JArr [JStr ''playwright'', JStr ''run-test-mcp-server'']),
          (''transport'', JStr ''stdio'')]"
  by (simp add: default_server_def dict_get_def)

lemma demo_paths:
  "workflow_plan_path (demo_world p g h) spec
   = plan_output_path (build_request_id demo_clock (strip spec))"
  "workflow_output_path (demo_world p g h) spec None lang
   = default_output_path (strip spec) lang (Some (build_request_id demo_clock (strip spec)))"
  by (simp_all add: workflow_plan_path_def workflow_output_path_def demo_world_def)

lemma with_config_paths:
  "workflow_plan_path (with_config w doc) spec = workflow_plan_path w spec"
  "workflow_output_path (with_config w doc) spec output_path lang
   = workflow_output_path w spec output_path lang"
  by (simp_all add: workflow_plan_path_def workflow_output_path_def with_config_def
      split: option.splits)

lemma demo_login_paths:
  "workflow_plan_path (demo_world p g h) '' Log in''
   = ''specs/log-in-20260102-030405-000678-plan.md''"
  "workflow_output_path (demo_world p g h) '' Log in'' None ''ts''
   = ''tests/log-in-20260102-030405-000678.spec.ts''"
proof -
  have "plan_output_path (build_request_id demo_clock (strip '' Log in''))
        = ''specs/log-in-20260102-030405-000678-plan.md''"
    by code_simp
  then show "workflow_plan_path (demo_world p g h) '' Log in''
   = ''specs/log-in-20260102-030405-000678-plan.md''"
    by (simp only: demo_paths)
  have "default_output_path (strip '' Log in'') ''ts''
          (Some (build_request_id demo_clock (strip '' Log in'')))
        = ''tests/log-in-20260102-030405-000678.spec.ts''"
    by code_simp
  then show "workflow_output_path (demo_world p g h) '' Log in'' None ''ts''
   = ''tests/log-in-20260102-030405-000678.spec.ts''"
    by (simp only: demo_paths)
qed

lemma demo_login_dirs:
  "path_parent ''specs/log-in-20260102-030405-000678-plan.md'' = ''specs''"
  "path_parent ''tests/log-in-20260102-030405-000678.spec.ts'' = ''tests''"
  by code_simp+

lemma demo_login_run:
  "run_workflow (demo_world p g h) '' Log in'' None None ''ts'' ''gpt'' ''mcp.json''
     ''playwright-test'' empty_state
   = (\<lparr>files = (\<lambda>p. None),
       trace = [Mkdir ''specs'', Mkdir ''tests'',
                ClientCreated 1 ''playwright-test''
                  [(''command'', JStr ''npx''),
                   (''args'', JArr [JStr ''playwright'', JStr ''run-test-mcp-server'']),
                   (''transport'', JStr ''stdio'')],
                GetTools 1, InitChatModel 1 ''gpt'', CloseClient 1]\<rparr>,
      Inl (unexpected_keyword ''handle_tool_error''))"
proof -
  let ?w = "demo_world p g h"
  have a: "load_mcp_server_config (config_file ?w ''mcp.json'') ''playwright-test''
           = Inr default_server"
    by (simp add: demo_world_def load_mcp_server_config_def)
  have b: "get_tools ?w 1 [(''command'', JStr ''npx''),
          (''args'', JArr [JStr ''playwright'', JStr ''run-test-mcp-server'']),
          (''transport'', JStr ''stdio'')] = Inr [''browser_click'']"
    by (simp add: demo_world_def)
  have c: "init_chat_model ?w 1 ''gpt'' = Inr ''gpt''"
    by (simp add: demo_world_def)
  have d: "bind_tools ?w 1 ''gpt'' [''browser_click''] = None"
    by (simp add: demo_world_def)
  have e: "aclose ?w 1 = None"
    by (simp add: demo_world_def)
  show ?thesis
    by (simp add: run_workflow_type_error[OF a default_server_normalized b c d e]
        demo_login_paths demo_login_dirs empty_state_def)
qed



section \<open>The heal phase\<close>

text \<open>
  Claim C1 is about a heal reply that is the sentinel or holds no code: the run is to
  return the generate-phase code with \<open>healed = False\<close> and leave the test file as the
  generate phase wrote it. The code does not get that far. With the built-in server, a
  tool provider and a model that answer, and a healer that would reply \<open>NO_CHANGES\<close>,
  \<open>run_workflow\<close> creates the two directories, constructs the client, lists the tools,
  initialises the model, raises the \<open>TypeError\<close> of \<open>ToolNode\<close> in \<open>build_graph\<close> and closes
  the client: no model is asked, and no test file exists afterwards.
\<close>

theorem sentinel_reply_never_reached:
  "run_workflow
     (demo_world ''```md\<newline>plan\<newline>```'' ''```ts\<newline>test(1)\<newline>```'' ''NO_CHANGES'')
     '' Log in'' None None ''ts'' ''gpt'' ''mcp.json'' ''playwright-test'' empty_state
   = (\<lparr>files = (\<lambda>p. None),
       trace = [Mkdir ''specs'', Mkdir ''tests'',
                ClientCreated 1 ''playwright-test''
                  [(''command'', JStr ''npx''),
                   (''args'', JArr [JStr ''playwright'', JStr ''run-test-mcp-server'']),
                   (''transport'', JStr ''stdio'')],
                GetTools 1, InitChatModel 1 ''gpt'', CloseClient 1]\<rparr>,
      Inl (unexpected_keyword ''handle_tool_error''))
   \<and> files (fst (run_workflow
        (demo_world ''```md\<newline>plan\<newline>```'' ''```ts\<newline>test(1)\<newline>```'' ''NO_CHANGES'')
        '' Log in'' None None ''ts'' ''gpt'' ''mcp.json'' ''playwright-test'' empty_state))
       ''tests/log-in-20260102-030405-000678.spec.ts'' = None"
  by (simp add: demo_login_run)

text \<open>
  Claim C2 is about a heal reply with new code: the run is to return it with
  \<open>healed = True\<close> and write it, with a newline, to the test file. At the same input with
  a healer that would reply with new code, \<open>run_workflow\<close> raises the \<open>TypeError\<close> of
  \<open>build_graph\<close> and has written no file at all.
\<close>

theorem new_code_reply_never_reached:
  "snd (run_workflow
          (demo_world ''```md\<newline>plan\<newline>```'' ''```ts\<newline>test(1)\<newline>```''
             ''Fixed:\<newline>```ts\<newline>test(2)\<newline>```'')
          '' Log in'' None None ''ts'' ''gpt'' ''mcp.json'' ''playwright-test'' empty_state)
   = Inl (unexpected_keyword ''handle_tool_error'')
   \<and> filter is_write (trace (fst (run_workflow
          (demo_world ''```md\<newline>plan\<newline>```'' ''```ts\<newline>test(1)\<newline>```''
             ''Fixed:\<newline>```ts\<newline>test(2)\<newline>```'')
          '' Log in'' None None ''ts'' ''gpt'' ''mcp.json'' ''playwright-test'' empty_state)))
     = []"
  by (simp add: demo_login_run is_write_def)

text \<open>
  Claim C3 is about a heal reply that repeats the generate-phase code: the run is to
  return \<open>healed = False\<close>. At the same input with a healer that would repeat the code,
  \<open>run_workflow\<close> returns nothing: it raises the \<open>TypeError\<close> of \<open>build_graph\<close> before any
  model is asked.
\<close>

theorem identical_code_reply_never_reached:
  "snd (run_workflow
          (demo_world ''```md\<newline>plan\<newline>```'' ''```ts\<newline>test(1)\<newline>```''
             ''```ts\<newline>test(1)\<newline>```'')
          '' Log in'' None None ''ts'' ''gpt'' ''mcp.json'' ''playwright-test'' empty_state)
   = Inl (unexpected_keyword ''handle_tool_error'')
   \<and> filter is_client_event (trace (fst (run_workflow
          (demo_world ''```md\<newline>plan\<newline>```'' ''```ts\<newline>test(1)\<newline>```''
             ''```ts\<newline>test(1)\<newline>```'')
          '' Log in'' None None ''ts'' ''gpt'' ''mcp.json'' ''playwright-test'' empty_state)))
     = [ClientCreated 1 ''playwright-test''
          [(''command'', JStr ''npx''),
           (''args'', JArr [JStr ''playwright'', JStr ''run-test-mcp-server'']),
           (''transport'', JStr ''stdio'')],
        GetTools 1, InitChatModel 1 ''gpt'', CloseClient 1]"
  by (simp add: demo_login_run is_client_event_def)

text \<open>
  Claim C9 is about what every successful run leaves in the test file. There is no
  successful run: whatever the world and the arguments, \<open>run_workflow\<close> raises an
  exception, and it leaves the files as they were.
\<close>

theorem no_run_returns_or_writes:
  "isl (snd (run_workflow w spec start_url output_path lang model_name mcp_config mcp_server s))
   \<and> files (fst (run_workflow w spec start_url output_path lang model_name mcp_config
                    mcp_server s)) = files s
   \<and> filter is_write (trace (fst (run_workflow w spec start_url output_path lang model_name
                                     mcp_config mcp_server s)))
     = filter is_write (trace s)"
proof -
  obtain s1 e where "run_workflow w spec start_url output_path lang model_name mcp_config
      mcp_server s = (s1, Inl e)"
    "files s1 = files s" "filter is_write (trace s1) = filter is_write (trace s)"
    using run_workflow_raises by blast
  then show ?thesis by simp
qed

section \<open>Empty extractions in the plan and generate phases\<close>




section \<open>Normalising the server configuration\<close>

text \<open>
  Claim C10. A configuration record without a \<open>type\<close> key is normalised exactly as the
  same record with \<open>type\<close> set to \<open>stdio\<close>. For a record without the key, or with the
  value \<open>stdio\<close>, the result is the record of \<open>command\<close> (the given one, \<open>npx\<close> when
  absent), \<open>args\<close> (the given ones, the empty list when absent) and \<open>transport\<close> \<open>stdio\<close>;
  no error is raised.
\<close>

theorem stdio_defaults:
  assumes "map_of server_config ''type'' = None
           \<or> map_of server_config ''type'' = Some (JStr ''stdio'')"
  shows "normalize_mcp_config (JObj server_config)
           = Inr [(''command'', case map_of server_config ''command'' of
                                  None \<Rightarrow> JStr ''npx'' | Some c \<Rightarrow> c),
                  (''args'', case map_of server_config ''args'' of
                               None \<Rightarrow> JArr [] | Some a \<Rightarrow> a),
                  (''transport'', JStr ''stdio'')]
         \<and> normalize_mcp_config (JObj server_config)
           = normalize_mcp_config (JObj ((''type'', JStr ''stdio'') # server_config))"
  using assms by (auto simp: dict_get_def)

theorem stdio_defaults_witness:
  "normalize_mcp_config (JObj [])
     = Inr [(''command'', JStr ''npx''), (''args'', JArr []), (''transport'', JStr ''stdio'')]
   \<and> normalize_mcp_config (JObj [(''command'', JStr ''node''), (''type'', JStr ''stdio'')])
     = Inr [(''command'', JStr ''node''), (''args'', JArr []), (''transport'', JStr ''stdio'')]"
proof -
  have h1: "map_of ([] :: (string \<times> json) list) ''type'' = None
            \<or> map_of ([] :: (string \<times> json) list) ''type'' = Some (JStr ''stdio'')"
    by simp
  have h2: "map_of [(''command'', JStr ''node''), (''type'', JStr ''stdio'')] ''type'' = None
            \<or> map_of [(''command'', JStr ''node''), (''type'', JStr ''stdio'')] ''type''
              = Some (JStr ''stdio'')"
    by simp
  from stdio_defaults[OF h1]
  have 1: "normalize_mcp_config (JObj [])
     = Inr [(''command'', JStr ''npx''), (''args'', JArr []), (''transport'', JStr ''stdio'')]"
    by simp
  from stdio_defaults[OF h2]
  have 2: "normalize_mcp_config (JObj [(''command'', JStr ''node''), (''type'', JStr ''stdio'')])
     = Inr [(''command'', JStr ''node''), (''args'', JArr []), (''transport'', JStr ''stdio'')]"
    by simp
  from 1 2 show ?thesis by blast
qed

text \<open>
  A \<open>type\<close> value that can be hashed (a string, \<open>null\<close>, a boolean, a number) and is not
  one of the strings \<open>stdio\<close>, \<open>streamable_http\<close>, \<open>http\<close> is rejected as the code intends:
  \<open>normalize_mcp_config\<close> raises the \<open>ValueError\<close> that names it, and \<open>run_workflow\<close> raises
  this error having done nothing but create the two output directories.
\<close>

lemma unsupported_type_rejected:
  assumes "load_mcp_server_config (config_file w mcp_config) mcp_server = Inr (JObj server_config)"
    and "map_of server_config ''type'' = Some kind"
    and "hashable kind"
    and "kind \<noteq> JStr ''stdio''" "kind \<noteq> JStr ''streamable_http''" "kind \<noteq> JStr ''http''"
  shows "normalize_mcp_config (JObj server_config)
           = Inl (ValueError (''Unsupported MCP server type: '' @ format_scalar kind))
         \<and> run_workflow w spec start_url output_path lang model_name mcp_config mcp_server s
           = (s\<lparr>trace := trace s
                   @ [Mkdir (path_parent (workflow_plan_path w spec)),
                      Mkdir (path_parent (workflow_output_path w spec output_path lang))]\<rparr>,
              Inl (ValueError (''Unsupported MCP server type: '' @ format_scalar kind)))
         \<and> filter is_client_event
              (trace (fst (run_workflow w spec start_url output_path lang model_name
                             mcp_config mcp_server s)))
           = filter is_client_event (trace s)"
proof -
  have n: "normalize_mcp_config (JObj server_config)
           = Inl (ValueError (''Unsupported MCP server type: '' @ format_scalar kind))"
    using assms(2-6) by (simp add: dict_get_def Let_def)
  have r: "run_workflow w spec start_url output_path lang model_name mcp_config mcp_server s
           = (s\<lparr>trace := trace s
                   @ [Mkdir (path_parent (workflow_plan_path w spec)),
                      Mkdir (path_parent (workflow_output_path w spec output_path lang))]\<rparr>,
              Inl (ValueError (''Unsupported MCP server type: '' @ format_scalar kind)))"
    using assms(1) n
    by (simp add: run_workflow_def first_session_def open_client_def mkdir_def log_event_def
        Let_def del: normalize_mcp_config.simps)
  have t: "filter is_client_event
              (trace (fst (run_workflow w spec start_url output_path lang model_name
                             mcp_config mcp_server s)))
           = filter is_client_event (trace s)"
    by (simp add: r is_client_event_def)
  from n r t show ?thesis
    by blast
qed

lemma grpc_run:
  "run_workflow (with_config (demo_world [] [] []) grpc_config) '' Log in'' None None ''ts''
     ''gpt'' ''mcp.json'' ''playwright-test'' empty_state
   = (\<lparr>files = (\<lambda>p. None), trace = [Mkdir ''specs'', Mkdir ''tests'']\<rparr>,
      Inl (ValueError ''Unsupported MCP server type: grpc''))"
proof -
  let ?w = "with_config (demo_world [] [] []) grpc_config"
  have h1: "load_mcp_server_config (config_file ?w ''mcp.json'') ''playwright-test''
            = Inr (JObj [(''type'', JStr ''grpc'')])"
    by (simp add: with_config_def grpc_config_def load_mcp_server_config_def dict_get_def)
  have h2: "map_of [(''type'', JStr ''grpc'')] ''type'' = Some (JStr ''grpc'')"
    by simp
  have h3: "hashable (JStr ''grpc'')"
    by simp
  have h4: "JStr ''grpc'' \<noteq> JStr ''stdio''" "JStr ''grpc'' \<noteq> JStr ''streamable_http''"
    "JStr ''grpc'' \<noteq> JStr ''http''"
    by simp_all
  from unsupported_type_rejected[OF h1 h2 h3 h4, of "'' Log in''" None None "''ts''" "''gpt''"
      empty_state]
  show ?thesis
    by (simp add: with_config_paths demo_login_paths demo_login_dirs empty_state_def)
qed

text \<open>
  Claim C7 asks, for every \<open>type\<close> value outside the three supported strings, for the
  configuration error that names it. The code means to raise it (its last line is the
  \<open>ValueError\<close>), but the membership test before it hashes the value: for a list or a
  dictionary as \<open>type\<close> value, \<open>normalize_mcp_config\<close> raises the \<open>TypeError\<close>
  \<open>unhashable type\<close>, which does not name the kind.
\<close>

theorem unhashable_type_raises_type_error:
  "normalize_mcp_config (JObj [(''type'', JArr [JStr ''grpc''])])
     = Inl (TypeError (''unhashable type: '' @ [CHR 0x27] @ ''list'' @ [CHR 0x27]))
   \<and> normalize_mcp_config (JObj [(''type'', JObj [(''kind'', JStr ''grpc'')])])
     = Inl (TypeError (''unhashable type: '' @ [CHR 0x27] @ ''dict'' @ [CHR 0x27]))
   \<and> normalize_mcp_config (JObj [(''type'', JArr [JStr ''grpc''])])
     \<noteq> Inl (ValueError (''Unsupported MCP server type: ['' @ [CHR 0x27] @ ''grpc''
                          @ [CHR 0x27] @ '']''))"
  by (simp add: dict_get_def unhashable_def)

section \<open>Failures at the HTTP boundary\<close>

text \<open>
  Claim C8. For every request payload: if the workflow invocation raises an exception
  \<open>exc\<close> (of class \<^verbatim>\<open>Exception\<close>, as every \<open>exn\<close> is), the \<open>/generate\<close> handler raises
  the HTTP error with status 500 and detail \<open>str(exc)\<close>, and returns no response record.
\<close>

theorem generate_failure_is_http_500:
  assumes "run_workflow_sync w (req_spec payload) (or_none (req_start_url payload))
             (or_none (req_output_path payload)) (req_test_language payload)
             (req_model_name payload) (req_mcp_config payload) (req_mcp_server payload) s
           = (s1, Inl exc)"
  shows "generate_tests w payload s = (s1, Inl \<lparr>status_code = 500, detail = str_exn exc\<rparr>)
         \<and> isl (snd (generate_tests w payload s))"
  using assms by (simp add: generate_tests_def)

theorem generate_failure_is_http_500_witness:
  "snd (generate_tests (with_config (demo_world [] [] []) grpc_config) demo_request empty_state)
   = Inl \<lparr>status_code = 500, detail = ''Unsupported MCP server type: grpc''\<rparr>"
proof -
  let ?w = "with_config (demo_world [] [] []) grpc_config"
  have "run_workflow_sync ?w (req_spec demo_request) (or_none (req_start_url demo_request))
             (or_none (req_output_path demo_request)) (req_test_language demo_request)
             (req_model_name demo_request) (req_mcp_config demo_request)
             (req_mcp_server demo_request) empty_state
        = (\<lparr>files = (\<lambda>p. None), trace = [Mkdir ''specs'', Mkdir ''tests'']\<rparr>,
           Inl (ValueError ''Unsupported MCP server type: grpc''))"
    using grpc_run by (simp add: run_workflow_sync_def demo_request_def or_none_def)
  from generate_failure_is_http_500[OF this] show ?thesis
    by simp
qed

end
